theory Spec2Isabelle
  imports Main "HOL-Library.Word"
begin

unbundle bit_operations_syntax

section \<open>The DNS message codec of natedns (package dns, latest revision)\<close>

text \<open>
  The Go package decodes a received datagram into a \<open>Message\<close> (header, one question, one
  resource record) and encodes a \<open>Message\<close> back into bytes. The functions are embedded one
  by one, under their own names.

  \<^item> A Go \<open>[]byte\<close> is a list of bytes; the \<open>nil\<close> slice is the empty list (it has length 0
    and \<open>append(x, nil...)\<close> is \<open>x\<close>). A Go \<open>string\<close> is a sequence of bytes as well
    (\<open>len\<close> counts bytes), so it is a list of bytes too.
  \<^item> The code has no error returns. A decoder either returns or panics: the Go runtime
    panics on an index or a slice bound out of range, and \<open>readQName\<close> calls
    \<open>panic(ErrorInvalidQNameLength)\<close>. A panic is the \<open>Inl\<close> of a sum type.
  \<^item> \<open>fmt.Println\<close> and \<open>spew.Dump\<close> only print; they are left out, except where the
    printed expression itself can panic.
\<close>

type_synonym byte = "8 word"
type_synonym uint16 = "16 word"
type_synonym uint32 = "32 word"
type_synonym rune = "32 word"

datatype panic =
    IndexOutOfRange
  | SliceBoundsOutOfRange
  | ErrorInvalidQNameLength

text \<open>
  Sequencing: a panic in a step ends the function; otherwise the next step runs on the
  values the step returned.
\<close>

definition and_then :: "panic + 'a \<Rightarrow> ('a \<Rightarrow> panic + 'b) \<Rightarrow> panic + 'b" where
  "and_then r f = (case r of Inl e \<Rightarrow> Inl e | Inr v \<Rightarrow> f v)"

subsection \<open>Header\<close>

record header =
  id_hdr :: uint16
  qr :: byte
  opcode :: byte
  aa :: byte
  tc :: byte
  rd :: byte
  ra :: byte
  z :: byte
  rcode :: byte
  questions :: uint16
  answers :: uint16
  authorities :: uint16
  additionals :: uint16

definition QrMask :: uint16 where "QrMask = 0x8000"
definition OPCodeMask :: uint16 where "OPCodeMask = 0x7800"
definition AAMask :: uint16 where "AAMask = 0x0400"
definition TCMask :: uint16 where "TCMask = 0x0200"
definition RDMask :: uint16 where "RDMask = 0x0100"
definition RAMask :: uint16 where "RAMask = 0x0080"
definition ZMask :: uint16 where "ZMask = 0x0040"
definition RCodeMask :: uint16 where "RCodeMask = 0x003F"

text \<open>\<open>binary.BigEndian.Uint16\<close> and \<open>Uint32\<close> on the two (four) bytes handed to them.\<close>

definition BigEndian_Uint16 :: "byte \<Rightarrow> byte \<Rightarrow> uint16" where
  "BigEndian_Uint16 b0 b1 = ucast b1 OR push_bit 8 (ucast b0)"

definition BigEndian_Uint32 :: "byte \<Rightarrow> byte \<Rightarrow> byte \<Rightarrow> byte \<Rightarrow> uint32" where
  "BigEndian_Uint32 b0 b1 b2 b3 =
     ucast b3 OR push_bit 8 (ucast b2) OR push_bit 16 (ucast b1) OR push_bit 24 (ucast b0)"

text \<open>
  \<open>read16(b)\<close> returns \<open>Uint16(b[0:2]), b[2:]\<close>. The slice expressions panic when \<open>b\<close> has
  fewer than two bytes; \<open>read32\<close> likewise with four.
\<close>

fun read16 :: "byte list \<Rightarrow> panic + (uint16 \<times> byte list)" where
  "read16 (b0 # b1 # b) = Inr (BigEndian_Uint16 b0 b1, b)"
| "read16 _ = Inl SliceBoundsOutOfRange"

fun read32 :: "byte list \<Rightarrow> panic + (uint32 \<times> byte list)" where
  "read32 (b0 # b1 # b2 # b3 # b) = Inr (BigEndian_Uint32 b0 b1 b2 b3, b)"
| "read32 _ = Inl SliceBoundsOutOfRange"

definition NewHeader :: "byte list \<Rightarrow> panic + (header \<times> byte list)" where
  "NewHeader b0 =
    and_then (read16 b0) (\<lambda>(hid, b1).
    and_then (read16 b1) (\<lambda>(qinfo, b2).
    and_then (read16 b2) (\<lambda>(qd, b3).
    and_then (read16 b3) (\<lambda>(an, b4).
    and_then (read16 b4) (\<lambda>(ns, b5).
    and_then (read16 b5) (\<lambda>(ar, b6).
      Inr (\<lparr> id_hdr = hid,
             qr = ucast (drop_bit 15 (qinfo AND QrMask)),
             opcode = ucast (drop_bit 11 (qinfo AND OPCodeMask)),
             aa = ucast (drop_bit 10 (qinfo AND AAMask)),
             tc = ucast (drop_bit 9 (qinfo AND TCMask)),
             rd = ucast (drop_bit 8 (qinfo AND RDMask)),
             ra = ucast (drop_bit 7 (qinfo AND RAMask)),
             z = ucast (drop_bit 6 (qinfo AND ZMask)),
             rcode = ucast (qinfo AND RCodeMask),
             questions = qd, answers = an, authorities = ns, additionals = ar \<rparr>, b6)))))))"

definition header_Write :: "header \<Rightarrow> byte list" where
  "header_Write h =
    [ ucast (drop_bit 8 (id_hdr h)),
      ucast (id_hdr h AND 0xff),
      rd h OR push_bit 1 (tc h) OR push_bit 2 (aa h) OR push_bit 3 (opcode h) OR push_bit 7 (ra h),
      rcode h,
      ucast (drop_bit 8 (questions h)),
      ucast (questions h AND 0xff),
      ucast (drop_bit 8 (answers h)),
      ucast (answers h AND 0xff),
      ucast (drop_bit 8 (authorities h)),
      ucast (authorities h AND 0xff),
      ucast (drop_bit 8 (additionals h)),
      ucast (additionals h AND 0xff) ]"

subsection \<open>Names\<close>

text \<open>
  Go's \<open>for _, by := range label\<close> walks a string rune by rune: a byte below \<open>0x80\<close> is a
  rune of its own, anything else goes through the runtime's \<open>decoderune\<close>, which returns
  \<open>0xFFFD\<close> and a width of one byte for a malformed sequence. \<open>decoderune s\<close> below is the
  runtime's function on the string from the current position on; it returns the rune and
  the number of bytes it spans.
\<close>

definition decoderune :: "byte list \<Rightarrow> rune \<times> nat" where
  "decoderune s =
    (let runeError = (0xFFFD, 1);
         cont = (\<lambda>i. i < length s \<and> 0x80 \<le> s ! i \<and> s ! i \<le> 0xBF)
     in
     if s = [] then runeError
     else if 0xC0 \<le> s ! 0 \<and> s ! 0 < 0xE0 then
       (if cont 1 then
          (let r = push_bit 6 (ucast (s ! 0 AND 0x1F)) OR ucast (s ! 1 AND 0x3F)
           in if 0x7F < r then (r, 2) else runeError)
        else runeError)
     else if 0xE0 \<le> s ! 0 \<and> s ! 0 < 0xF0 then
       (if cont 1 \<and> cont 2 then
          (let r = push_bit 12 (ucast (s ! 0 AND 0x0F)) OR push_bit 6 (ucast (s ! 1 AND 0x3F))
                   OR ucast (s ! 2 AND 0x3F)
           in if 0x7FF < r \<and> \<not> (0xD800 \<le> r \<and> r \<le> 0xDFFF) then (r, 3) else runeError)
        else runeError)
     else if 0xF0 \<le> s ! 0 \<and> s ! 0 < 0xF8 then
       (if cont 1 \<and> cont 2 \<and> cont 3 then
          (let r = push_bit 18 (ucast (s ! 0 AND 0x07)) OR push_bit 12 (ucast (s ! 1 AND 0x3F))
                   OR push_bit 6 (ucast (s ! 2 AND 0x3F)) OR ucast (s ! 3 AND 0x3F)
           in if 0xFFFF < r \<and> r \<le> 0x10FFFF then (r, 4) else runeError)
        else runeError)
     else runeError)"

text \<open>The runes a \<open>range\<close> loop over the string visits, in order.\<close>

function range_string :: "byte list \<Rightarrow> rune list" where
  "range_string [] = []"
| "range_string (c # s) =
     (if c < 0x80 then ucast c # range_string s
      else (case decoderune (c # s) of (r, w) \<Rightarrow> r # range_string (drop (w - 1) s)))"
  by pat_completeness auto
termination
  by (relation "measure length") auto

text \<open>
  \<open>string(c)\<close> for a byte \<open>c\<close> is Go's conversion of an integer to a string: the UTF-8
  encoding of the code point \<open>c\<close>, two bytes from \<open>0x80\<close> on.
\<close>

definition string_of_byte :: "byte \<Rightarrow> byte list" where
  "string_of_byte c = (if c < 0x80 then [c] else [0xC0 OR drop_bit 6 c, 0x80 OR (c AND 0x3F)])"

text \<open>\<open>strings.Split(s, ".")\<close>: the pieces between the dots, one more than there are dots.\<close>

fun strings_Split :: "byte list \<Rightarrow> byte list list" where
  "strings_Split [] = [[]]"
| "strings_Split (c # s) =
     (if c = 0x2E then [] # strings_Split s
      else (case strings_Split s of [] \<Rightarrow> [[c]] | l # ls \<Rightarrow> (c # l) # ls))"

text \<open>
  The loop of \<open>writeQName\<close> over the labels, with the buffer \<open>b\<close> built so far; \<open>None\<close> is
  the early \<open>return nil\<close>.
\<close>

fun writeQName_loop :: "byte list list \<Rightarrow> byte list \<Rightarrow> byte list option" where
  "writeQName_loop [] b = Some b"
| "writeQName_loop (label # s) b =
     (if length label > 0x3f then None
      else writeQName_loop s (b @ [of_nat (length label)] @ map ucast (range_string label)))"

definition writeQName :: "byte list \<Rightarrow> byte list" where
  "writeQName qname =
     (case writeQName_loop (strings_Split qname) [] of None \<Rightarrow> [] | Some b \<Rightarrow> b @ [0])"

text \<open>
  The loop of \<open>readQName\<close>, on the buffer after the first length byte: \<open>labelLen\<close> is the
  \<open>uint8\<close> counter, \<open>str\<close> the name so far, \<open>pos\<close> the index. It returns the name and the
  index at which it stopped.
\<close>

function readQName_loop ::
  "byte list \<Rightarrow> byte \<Rightarrow> byte list \<Rightarrow> nat \<Rightarrow> panic + (byte list \<times> nat)" where
  "readQName_loop buff labelLen str pos =
    (if length buff \<le> pos then Inl IndexOutOfRange
     else if buff ! pos = 0 then Inr (str, pos)
     else if labelLen = 0 then
       (if length buff \<le> pos + 1 then Inl IndexOutOfRange
        else readQName_loop buff (buff ! pos - 1)
               (str @ [0x2E] @ string_of_byte (buff ! (pos + 1))) (pos + 2))
     else readQName_loop buff (labelLen - 1) (str @ string_of_byte (buff ! pos)) (pos + 1))"
  by pat_completeness auto
termination
  by (relation "measure (\<lambda>(buff, labelLen, str, pos). length buff - pos)") auto

definition readQName :: "byte list \<Rightarrow> panic + (byte list \<times> byte list)" where
  "readQName buff0 =
    (case buff0 of
       [] \<Rightarrow> Inl IndexOutOfRange
     | labelLen # buff \<Rightarrow>
         if labelLen > 63 then Inl ErrorInvalidQNameLength
         else if length buff < 1 then Inl ErrorInvalidQNameLength
         else and_then (readQName_loop buff labelLen [] 0) (\<lambda>(str, pos).
                if length str < 1 then Inl ErrorInvalidQNameLength
                else Inr (str, drop pos buff)))"

subsection \<open>Question\<close>

record question =
  qname :: "byte list"
  qtype :: uint16
  qclass :: uint16

text \<open>
  \<open>newQuestion\<close> prints \<open>b[0]\<close> after the name (an index that panics on an empty slice) and
  reads \<open>qtype\<close> from \<open>b[12:]\<close>.
\<close>

definition newQuestion :: "byte list \<Rightarrow> panic + (question \<times> byte list)" where
  "newQuestion b0 =
    and_then (readQName b0) (\<lambda>(nm, b1).
      if b1 = [] then Inl IndexOutOfRange
      else if length b1 < 12 then Inl SliceBoundsOutOfRange
      else
        and_then (read16 (drop 12 b1)) (\<lambda>(qt, b2).
        and_then (read16 b2) (\<lambda>(qc, b3).
          Inr (\<lparr> qname = nm, qtype = qt, qclass = qc \<rparr>, b3))))"

text \<open>\<open>question.Write\<close> builds \<open>buff\<close> and then returns \<open>nil\<close>.\<close>

definition question_Write :: "question \<Rightarrow> byte list" where
  "question_Write qu =
    (let buff = writeQName (qname qu) @
                [ ucast (drop_bit 8 (qtype qu)), ucast (qtype qu AND 0xff),
                  ucast (drop_bit 8 (qclass qu)), ucast (qclass qu AND 0xff) ]
     in [])"

subsection \<open>Resource record\<close>

record resourceRecord =
  name :: "byte list"
  rtype :: uint16
  class_rr :: uint16
  ttl :: uint32
  length_rr :: uint16
  rdata :: uint32

definition newResourceRecord :: "byte list \<Rightarrow> panic + (resourceRecord \<times> byte list)" where
  "newResourceRecord b0 =
    and_then (read16 b0) (\<lambda>(ty, b1).
    and_then (read16 b1) (\<lambda>(cl, b2).
    and_then (read32 b2) (\<lambda>(tl, b3).
    and_then (read16 b3) (\<lambda>(ln, b4).
    and_then (read32 b4) (\<lambda>(rdt, b5).
      Inr (\<lparr> name = [], rtype = ty, class_rr = cl, ttl = tl, length_rr = ln, rdata = rdt \<rparr>,
           b5))))))"

definition resourceRecord_Write :: "resourceRecord \<Rightarrow> byte list" where
  "resourceRecord_Write r =
    (let bb = [] @ writeQName (name r);
         r1 = [ ucast (drop_bit 8 (rtype r)), ucast (rtype r AND 0xff),
                ucast (drop_bit 8 (class_rr r)), ucast (class_rr r AND 0xff),
                ucast (drop_bit 24 (ttl r) AND 0xff), ucast (drop_bit 16 (ttl r) AND 0xff),
                ucast (drop_bit 8 (ttl r) AND 0xff), ucast (drop_bit 0 (ttl r) AND 0xff),
                ucast (drop_bit 8 (length_rr r)), ucast (length_rr r AND 0xff),
                ucast (drop_bit 24 (rdata r) AND 0xff), ucast (drop_bit 16 (rdata r) AND 0xff),
                ucast (drop_bit 8 (rdata r) AND 0xff), ucast (drop_bit 0 (rdata r) AND 0xff) ]
     in r1 @ bb)"

subsection \<open>Message\<close>

record Message =
  hdr :: header
  q :: question
  rr :: resourceRecord

text \<open>
  \<open>NewMessage\<close> also calls \<open>hdr.Write()\<close> and drops the result; the call cannot panic and
  changes nothing.
\<close>

definition NewMessage :: "byte list \<Rightarrow> panic + Message" where
  "NewMessage b0 =
    and_then (NewHeader b0) (\<lambda>(h, b1).
    and_then (newQuestion b1) (\<lambda>(qu, b2).
    and_then (newResourceRecord b2) (\<lambda>(r, b3).
      Inr \<lparr> hdr = h, q = qu, rr = r\<lparr> name := qname qu \<rparr> \<rparr>)))"

definition Message_Write :: "Message \<Rightarrow> byte list" where
  "Message_Write m =
     (([] @ header_Write (hdr m)) @ question_Write (q m)) @ resourceRecord_Write (rr m)"

subsection \<open>Concrete inputs\<close>

text \<open>The name \<open>example.com\<close>, as the bytes of the Go string.\<close>

definition example_com :: "byte list" where
  "example_com = [0x65, 0x78, 0x61, 0x6d, 0x70, 0x6c, 0x65, 0x2e, 0x63, 0x6f, 0x6d]"

text \<open>
  A query for \<open>example.com\<close>: header (id 1, rd set, one question), the encoded name,
  qtype 1, qclass 1 and a record tail of 14 bytes (type 1, class 1, ttl 60, length 4,
  rdata 93.184.216.34); 43 bytes.
\<close>

definition record_tail :: "byte list" where
  "record_tail =
     [0x00, 0x01, 0x00, 0x01, 0x00, 0x00, 0x00, 0x3c, 0x00, 0x04, 0x5d, 0xb8, 0xd8, 0x22]"

definition datagram :: "byte list" where
  "datagram =
     [0x00, 0x01, 0x01, 0x00, 0x00, 0x01, 0x00, 0x00, 0x00, 0x00, 0x00, 0x00]
     @ writeQName example_com @ [0x00, 0x01, 0x00, 0x01] @ record_tail"

text \<open>The resolver hands \<open>NewMessage\<close> its whole 128-byte receive buffer.\<close>

definition datagram128 :: "byte list" where
  "datagram128 = datagram @ replicate 85 0"

definition query_header :: header where
  "query_header =
     \<lparr> id_hdr = 1, qr = 1, opcode = 0, aa = 0, tc = 0, rd = 1, ra = 0, z = 0, rcode = 0,
       questions = 1, answers = 0, authorities = 0, additionals = 0 \<rparr>"

definition a_record :: resourceRecord where
  "a_record =
     \<lparr> name = example_com, rtype = 1, class_rr = 1, ttl = 60, length_rr = 4,
       rdata = 0x5db8d822 \<rparr>"

section \<open>Properties\<close>

subsection \<open>Big-endian reads\<close>









subsection \<open>Header\<close>





text \<open>
  C10. Two headers that agree on every field other than \<open>qr\<close> and \<open>z\<close> are written to the
  same 12 bytes: \<open>header.Write\<close> reads neither field.
\<close>

theorem header_Write_independent_of_qr_z:
  "id_hdr h1 = id_hdr h2 \<Longrightarrow> opcode h1 = opcode h2 \<Longrightarrow> aa h1 = aa h2 \<Longrightarrow> tc h1 = tc h2 \<Longrightarrow>
   rd h1 = rd h2 \<Longrightarrow> ra h1 = ra h2 \<Longrightarrow> rcode h1 = rcode h2 \<Longrightarrow>
   questions h1 = questions h2 \<Longrightarrow> answers h1 = answers h2 \<Longrightarrow>
   authorities h1 = authorities h2 \<Longrightarrow> additionals h1 = additionals h2 \<Longrightarrow>
   header_Write h1 = header_Write h2 \<and> length (header_Write h1) = 12"
  by (simp add: header_Write_def)

theorem header_Write_independent_of_qr_z_witness:
  "header_Write query_header = header_Write (query_header \<lparr> qr := 0, z := 1 \<rparr>) \<and>
   length (header_Write query_header) = 12 \<and>
   query_header \<noteq> query_header \<lparr> qr := 0, z := 1 \<rparr>"
proof -
  have differ: "query_header \<noteq> query_header \<lparr> qr := 0, z := 1 \<rparr>"
    by (simp add: query_header_def)
  have "header_Write query_header = header_Write (query_header \<lparr> qr := 0, z := 1 \<rparr>) \<and>
        length (header_Write query_header) = 12"
    by (rule header_Write_independent_of_qr_z) simp_all
  with differ show ?thesis
    by (elim conjE) (intro conjI; assumption)
qed

text \<open>
  C2 (fails on the code). The header with \<open>qr = 1\<close> (id 1, rd set, one question) is written
  as \<open>00 01 01 00 00 01 00 00 00 00 00 00\<close>, flags word \<open>0x0100\<close>: \<open>header.Write\<close> shifts
  \<open>ra\<close> into bit 7 of the first flags byte, where \<open>NewHeader\<close> reads \<open>qr\<close>, and writes
  neither \<open>qr\<close> nor \<open>z\<close>. Decoding these bytes gives \<open>qr = 0\<close>.
\<close>

theorem header_roundtrip_loses_qr:
  "header_Write query_header =
     [0x00, 0x01, 0x01, 0x00, 0x00, 0x01, 0x00, 0x00, 0x00, 0x00, 0x00, 0x00] \<and>
   NewHeader (header_Write query_header) = Inr (query_header \<lparr> qr := 0 \<rparr>, []) \<and>
   query_header \<lparr> qr := 0 \<rparr> \<noteq> query_header"
  by (simp add: query_header_def header_Write_def NewHeader_def and_then_def
        BigEndian_Uint16_def QrMask_def OPCodeMask_def AAMask_def TCMask_def RDMask_def
        RAMask_def ZMask_def RCodeMask_def)

lemma byte_le_1: "(x :: byte) \<le> 1 \<Longrightarrow> x = 0 \<or> x = 1"
  by (metis word_le_less_eq word_less_1 )

lemma byte_less_16_bits: "(x :: byte) < 16 \<Longrightarrow> bit x n \<Longrightarrow> n < 4"
proof -
  assume a: "x < 16" and b: "bit x n"
  have "x < 2 ^ 4" using a by simp
  then have "take_bit 4 x = x" by (simp add: less_mask_eq take_bit_eq_mask)
  then have "bit (take_bit 4 x) n" using b by simp
  then show "n < 4" by (simp add: bit_take_bit_iff)
qed

lemma and_0xff_uint16: "(x :: uint16) AND 0xff = take_bit 8 x"
  by (simp add: take_bit_eq_mask mask_eq_exp_minus_1)

lemma BigEndian_Uint16_split:
  "BigEndian_Uint16 (ucast (drop_bit 8 x)) (ucast (x AND 0xff)) = (x :: uint16)"
  unfolding BigEndian_Uint16_def and_0xff_uint16
  by (rule bit_word_eqI) (auto simp add: bit_simps dest: bit_imp_le_length)

lemma bit_byte_times_2:
  "bit (a * 2 :: byte) n \<longleftrightarrow> n \<noteq> 0 \<and> n < 8 \<and> bit a (n - 1)"
  using bit_double_iff [of a n] by (auto simp add: mult.commute dest: bit_imp_le_length)

lemma first_flags_byte:
  fixes f2 :: byte
  assumes "aa h \<le> 1" "tc h \<le> 1" "rd h \<le> 1" "ra h \<le> 1" "opcode h < 16"
  defines "f1 \<equiv> rd h OR push_bit 1 (tc h) OR push_bit 2 (aa h) OR push_bit 3 (opcode h)
      OR push_bit 7 (ra h)"
  defines "x \<equiv> BigEndian_Uint16 f1 f2"
  shows "ucast (drop_bit 15 (x AND QrMask)) = ra h"
    and "ucast (drop_bit 11 (x AND OPCodeMask)) = opcode h"
    and "ucast (drop_bit 10 (x AND AAMask)) = aa h"
    and "ucast (drop_bit 9 (x AND TCMask)) = tc h"
    and "ucast (drop_bit 8 (x AND RDMask)) = rd h"
proof -
  have m: "QrMask = push_bit 15 1" "OPCodeMask = push_bit 11 (mask 4)" "AAMask = push_bit 10 1"
    "TCMask = push_bit 9 1" "RDMask = push_bit 8 1"
    by (simp_all add: QrMask_def OPCodeMask_def AAMask_def TCMask_def RDMask_def
          mask_eq_exp_minus_1)
  have b: "\<And>n. bit (aa h) n \<longleftrightarrow> n = 0 \<and> aa h = 1"
    "\<And>n. bit (tc h) n \<longleftrightarrow> n = 0 \<and> tc h = 1"
    "\<And>n. bit (rd h) n \<longleftrightarrow> n = 0 \<and> rd h = 1"
    "\<And>n. bit (ra h) n \<longleftrightarrow> n = 0 \<and> ra h = 1"
    using assms(1-4) by (auto dest!: byte_le_1 simp add: bit_simps)
  note o = byte_less_16_bits [OF assms(5)]
  show "ucast (drop_bit 15 (x AND QrMask)) = ra h"
    unfolding x_def f1_def BigEndian_Uint16_def m
    by (rule bit_word_eqI)
       (auto simp add: bit_simps bit_byte_times_2 b dest: o bit_imp_le_length)
  show "ucast (drop_bit 11 (x AND OPCodeMask)) = opcode h"
    unfolding x_def f1_def BigEndian_Uint16_def m
    by (rule bit_word_eqI)
       (auto simp add: bit_simps bit_byte_times_2 b dest: o bit_imp_le_length)
  show "ucast (drop_bit 10 (x AND AAMask)) = aa h"
    unfolding x_def f1_def BigEndian_Uint16_def m
    by (rule bit_word_eqI)
       (auto simp add: bit_simps bit_byte_times_2 b dest: o bit_imp_le_length)
  show "ucast (drop_bit 9 (x AND TCMask)) = tc h"
    unfolding x_def f1_def BigEndian_Uint16_def m
    by (rule bit_word_eqI)
       (auto simp add: bit_simps bit_byte_times_2 b dest: o bit_imp_le_length)
  show "ucast (drop_bit 8 (x AND RDMask)) = rd h"
    unfolding x_def f1_def BigEndian_Uint16_def m
    by (rule bit_word_eqI)
       (auto simp add: bit_simps bit_byte_times_2 b dest: o bit_imp_le_length)
qed

lemma second_flags_byte:
  fixes f1 :: byte
  assumes "rcode h < 16"
  defines "x \<equiv> BigEndian_Uint16 f1 (rcode h)"
  shows "ucast (drop_bit 7 (x AND RAMask)) = (0 :: byte)"
    and "ucast (drop_bit 6 (x AND ZMask)) = (0 :: byte)"
    and "ucast (x AND RCodeMask) = rcode h"
proof -
  have m: "RAMask = push_bit 7 1" "ZMask = push_bit 6 1" "RCodeMask = mask 6"
    by (simp_all add: RAMask_def ZMask_def RCodeMask_def mask_eq_exp_minus_1)
  note o = byte_less_16_bits [OF assms(1)]
  show "ucast (drop_bit 7 (x AND RAMask)) = (0 :: byte)"
    unfolding x_def BigEndian_Uint16_def m
    by (rule bit_word_eqI) (auto simp add: bit_simps dest: o bit_imp_le_length)
  show "ucast (drop_bit 6 (x AND ZMask)) = (0 :: byte)"
    unfolding x_def BigEndian_Uint16_def m
    by (rule bit_word_eqI) (auto simp add: bit_simps dest: o bit_imp_le_length)
  show "ucast (x AND RCodeMask) = rcode h"
    unfolding x_def BigEndian_Uint16_def m
    by (rule bit_word_eqI) (auto simp add: bit_simps dest: o bit_imp_le_length)
qed

text \<open>
  What decoding the written header gives in general, for a header whose flags are 0 or 1
  and whose opcode and rcode are below 16: \<open>qr\<close> comes back as \<open>ra\<close>, and \<open>ra\<close> and \<open>z\<close>
  come back as 0; every other field is preserved.
\<close>

lemma NewHeader_header_Write:
  assumes "aa h \<le> 1" "tc h \<le> 1" "rd h \<le> 1" "ra h \<le> 1" "opcode h < 16" "rcode h < 16"
  shows "NewHeader (header_Write h) = Inr (h \<lparr> qr := ra h, ra := 0, z := 0 \<rparr>, [])"
  unfolding NewHeader_def header_Write_def and_then_def
  by (simp only: read16.simps sum.case prod.case BigEndian_Uint16_split
        first_flags_byte [OF assms(1-5)] second_flags_byte [OF assms(6)])
     simp

subsection \<open>Names\<close>

lemma writeQName_example_com:
  "writeQName example_com =
     [7, 0x65, 0x78, 0x61, 0x6d, 0x70, 0x6c, 0x65, 3, 0x63, 0x6f, 0x6d, 0]"
  by (simp add: example_com_def writeQName_def)

lemma readQName_first_length_byte:
  "63 < l \<Longrightarrow> readQName (l # bs) = Inl ErrorInvalidQNameLength"
  by (simp add: readQName_def)

lemma readQName_label_of_63:
  "readQName ([63] @ replicate 63 0x62 @ [0]) = Inr (replicate 63 0x62, [0])"
  by code_simp

lemma ucast_rune_byte: "(ucast (ucast (c :: byte) :: rune) :: byte) = c"
  by (simp add: ucast_up_ucast_id is_up)

lemma range_string_ascii:
  "\<forall>c \<in> set l. c < 0x80 \<Longrightarrow> map ucast (range_string l) = l"
  by (induction l) (auto simp add: ucast_rune_byte)

lemma writeQName_loop_ascii:
  "\<forall>l \<in> set ls. length l \<le> 63 \<and> (\<forall>c \<in> set l. c < 0x80) \<Longrightarrow>
     writeQName_loop ls b = Some (b @ concat (map (\<lambda>l. of_nat (length l) # l) ls))"
  by (induction ls arbitrary: b) (auto simp add: range_string_ascii)

lemma strings_Split_not_Nil: "strings_Split n \<noteq> []"
  by (induction n) (auto split: list.splits)

lemma strings_Split_join:
  "strings_Split n = l # ls \<Longrightarrow> l @ concat (map ((#) 0x2E) ls) = n"
proof (induction n arbitrary: l ls)
  case Nil
  then show ?case by simp
next
  case (Cons c n)
  obtain l' ls' where split: "strings_Split n = l' # ls'"
    using strings_Split_not_Nil [of n] by (cases "strings_Split n") auto
  have joined: "l' @ concat (map ((#) 0x2E) ls') = n"
    by (rule Cons.IH [OF split])
  show ?case
  proof (cases "c = 0x2E")
    case True
    with Cons.prems split have "l = []" and "ls = l' # ls'"
      by simp_all
    with joined True show ?thesis by simp
  next
    case False
    with Cons.prems split have "l = c # l'" and "ls = ls'"
      by simp_all
    with joined show ?thesis by simp
  qed
qed

lemma of_nat_byte_neq_0: "0 < n \<Longrightarrow> n \<le> 63 \<Longrightarrow> (of_nat n :: byte) \<noteq> 0"
  by (auto simp add: word_of_nat_eq_0_iff dest: dvd_imp_le)

lemma one_plus_of_nat_byte_neq_0: "n \<le> 62 \<Longrightarrow> 1 + (of_nat n :: byte) \<noteq> 0"
  using of_nat_byte_neq_0 [of "Suc n"] by simp

lemma of_nat_byte_le_63: "n \<le> 63 \<Longrightarrow> \<not> 63 < (of_nat n :: byte)"
  by (simp add: word_less_nat_alt unat_of_nat)

lemma readQName_loop_labels:
  "buff = pre @ cur @ concat (map (\<lambda>l. of_nat (length l) # l) ls) @ [0] \<Longrightarrow>
   length cur \<le> 63 \<Longrightarrow> \<forall>c \<in> set cur. c \<noteq> 0 \<and> c < 0x80 \<Longrightarrow>
   \<forall>l \<in> set ls. l \<noteq> [] \<and> length l \<le> 63 \<and> (\<forall>c \<in> set l. c \<noteq> 0 \<and> c < 0x80) \<Longrightarrow>
   readQName_loop buff (of_nat (length cur)) str (length pre) =
     Inr (str @ cur @ concat (map ((#) 0x2E) ls), length buff - 1)"
proof (induction ls arbitrary: buff pre cur str)
  case Nil
  then show ?case
  proof (induction cur arbitrary: buff pre str)
    case Nil
    then show ?case
      by (subst readQName_loop.simps) (simp del: readQName_loop.simps)
  next
    case (Cons c cur)
    have "readQName_loop buff (of_nat (length (c # cur))) str (length pre) =
        readQName_loop buff (of_nat (length cur)) (str @ [c]) (length (pre @ [c]))"
      using Cons.prems
      by (subst readQName_loop.simps)
         (simp del: readQName_loop.simps
            add: string_of_byte_def of_nat_byte_neq_0 one_plus_of_nat_byte_neq_0)
    also have "\<dots> = Inr ((str @ [c]) @ cur @ concat (map ((#) 0x2E) []), length buff - 1)"
      using Cons.prems by (intro Cons.IH) (simp_all del: readQName_loop.simps)
    finally show ?case by (simp del: readQName_loop.simps)
  qed
next
  case (Cons l ls)
  from Cons.prems show ?case
  proof (induction cur arbitrary: buff pre str)
    case Nil
    then obtain c l' where l: "l = c # l'"
      by (cases l) auto
    have "readQName_loop buff (of_nat (length ([] :: byte list))) str (length pre) =
        readQName_loop buff (of_nat (length l')) (str @ [0x2E, c])
          (length (pre @ [of_nat (length l), c]))"
      using Nil.prems l
      by (subst readQName_loop.simps)
         (simp del: readQName_loop.simps
            add: string_of_byte_def of_nat_byte_neq_0 one_plus_of_nat_byte_neq_0 nth_append)
    also have "\<dots> =
        Inr ((str @ [0x2E, c]) @ l' @ concat (map ((#) 0x2E) ls), length buff - 1)"
      using Nil.prems l by (intro Cons.IH) (simp_all del: readQName_loop.simps)
    finally show ?case using l by (simp del: readQName_loop.simps)
  next
    case (Cons c cur)
    have "readQName_loop buff (of_nat (length (c # cur))) str (length pre) =
        readQName_loop buff (of_nat (length cur)) (str @ [c]) (length (pre @ [c]))"
      using Cons.prems
      by (subst readQName_loop.simps)
         (simp del: readQName_loop.simps
            add: string_of_byte_def of_nat_byte_neq_0 one_plus_of_nat_byte_neq_0)
    also have "\<dots> =
        Inr ((str @ [c]) @ cur @ concat (map ((#) 0x2E) (l # ls)), length buff - 1)"
      using Cons.prems by (intro Cons.IH) (simp_all del: readQName_loop.simps)
    finally show ?case by (simp del: readQName_loop.simps)
  qed
qed

text \<open>
  For a name whose labels are 1 to 63 bytes long, each byte a non-zero ASCII byte, the name
  itself comes back from \<open>readQName\<close>; the remainder is the terminating zero byte.
\<close>

lemma readQName_writeQName_ascii:
  assumes labels: "\<forall>l \<in> set (strings_Split n).
      l \<noteq> [] \<and> length l \<le> 63 \<and> (\<forall>c \<in> set l. c \<noteq> 0 \<and> c < 0x80)"
  shows "readQName (writeQName n) = Inr (n, [0])"
proof -
  obtain l ls where split: "strings_Split n = l # ls"
    using strings_Split_not_Nil [of n] by (cases "strings_Split n") auto
  define buff where "buff = l @ concat (map (\<lambda>l. of_nat (length l) # l) ls) @ [0]"
  from labels split
  have l: "l \<noteq> []" "length l \<le> 63" "\<forall>c \<in> set l. c \<noteq> 0 \<and> c < 0x80"
    and ls: "\<forall>l \<in> set ls. l \<noteq> [] \<and> length l \<le> 63 \<and> (\<forall>c \<in> set l. c \<noteq> 0 \<and> c < 0x80)"
    by simp_all
  have "writeQName_loop (strings_Split n) [] =
      Some ([] @ concat (map (\<lambda>l. of_nat (length l) # l) (strings_Split n)))"
    using labels by (intro writeQName_loop_ascii) blast
  then have written: "writeQName n = of_nat (length l) # buff"
    by (simp add: writeQName_def split buff_def)
  have "readQName_loop buff (of_nat (length l)) [] (length ([] :: byte list)) =
      Inr ([] @ l @ concat (map ((#) 0x2E) ls), length buff - 1)"
    using l ls by (intro readQName_loop_labels) (simp_all add: buff_def)
  then have loop: "readQName_loop buff (of_nat (length l)) [] 0 = Inr (n, length buff - 1)"
    using strings_Split_join [OF split] by simp
  have rest: "drop (length buff - 1) buff = [0]"
    by (simp add: buff_def)
  have "buff \<noteq> []" and "n \<noteq> []"
    using l strings_Split_join [OF split] by (auto simp add: buff_def)
  with loop rest l show ?thesis
    by (simp add: written readQName_def and_then_def of_nat_byte_le_63 Suc_le_eq)
qed

text \<open>
  C3 (fails on the code). \<open>readQName\<close> on the encoding of \<open>example.com\<close> returns the name,
  but the remainder is the terminating zero byte, not the empty slice: the loop breaks at
  the zero byte with \<open>pos\<close> pointing at it and the function returns \<open>buff[pos:]\<close>.
\<close>

theorem readQName_leaves_terminator:
  "readQName (writeQName example_com) = Inr (example_com, [0])"
  by (simp only: writeQName_example_com)
     (simp add: readQName_def and_then_def string_of_byte_def example_com_def)

text \<open>
  C4 (fails on the code). Only the first length byte is compared with 63. In the buffer
  \<open>01 'a' 40 'b'\<times>64 00\<close> the second length byte is 64; \<open>readQName\<close> takes it as the
  length of a label and returns the name \<open>a.bbb\<dots>b\<close>.
\<close>

theorem readQName_accepts_later_length_64:
  "readQName ([1, 0x61, 64] @ replicate 64 0x62 @ [0]) =
     Inr ([0x61, 0x2E] @ replicate 64 0x62, [0])"
  by code_simp

subsection \<open>Question\<close>

text \<open>
  C6 (fails on the code). After the name, \<open>newQuestion\<close> reads \<open>qtype\<close> from \<open>b[12:]\<close>,
  where \<open>b\<close> still starts at the zero byte that ends the name. On \<open>example.com\<close> followed by
  qtype, qclass and 14 more bytes \<open>t0 \<dots> t13\<close>, the two fields come from \<open>t7 t8\<close> and
  \<open>t9 t10\<close>, whatever qtype and qclass are on the wire, and the remainder is \<open>t11 t12 t13\<close>.
\<close>

theorem newQuestion_reads_at_offset_12:
  "newQuestion (writeQName example_com @ [0x00, 0x01, 0x00, 0x01]
       @ [t0, t1, t2, t3, t4, t5, t6, t7, t8, t9, t10, t11, t12, t13]) =
     Inr (\<lparr> qname = example_com, qtype = BigEndian_Uint16 t7 t8,
            qclass = BigEndian_Uint16 t9 t10 \<rparr>, [t11, t12, t13])"
  by (simp only: writeQName_example_com)
     (simp add: and_then_def newQuestion_def readQName_def string_of_byte_def example_com_def)

subsection \<open>Resource record\<close>



lemma NewMessage_datagram128:
  "NewMessage datagram128 =
     Inr \<lparr> hdr = query_header \<lparr> qr := 0 \<rparr>,
           q = \<lparr> qname = example_com, qtype = 0x3c00, qclass = 0x045d \<rparr>,
           rr = \<lparr> name = example_com, rtype = 0xb8d8, class_rr = 0x2200, ttl = 0,
                  length_rr = 0, rdata = 0 \<rparr> \<rparr>"
  unfolding datagram128_def datagram_def record_tail_def query_header_def example_com_def
  by code_simp



text \<open>
  C8 (fails on the code). \<open>resourceRecord.Write\<close> appends the name to the 14 bytes of the
  fixed fields (\<open>r = append(r, bb...)\<close>): for the A record of \<open>example.com\<close> the output
  starts with rtype and ends with the encoded name.
\<close>

theorem resourceRecord_Write_name_last:
  "resourceRecord_Write a_record = record_tail @ writeQName example_com \<and>
   resourceRecord_Write a_record \<noteq> writeQName example_com @ record_tail"
  by (simp only: writeQName_example_com)
     (simp add: resourceRecord_Write_def a_record_def record_tail_def writeQName_example_com)

subsection \<open>Message\<close>

lemma Message_Write_datagram128:
  "NewMessage datagram128 = Inr m \<Longrightarrow>
     Message_Write m =
       [0x00, 0x01, 0x01, 0x00, 0x00, 0x01, 0x00, 0x00, 0x00, 0x00, 0x00, 0x00]
       @ [0xb8, 0xd8, 0x22, 0x00, 0, 0, 0, 0, 0, 0, 0, 0, 0, 0] @ writeQName example_com"
  by (simp only: NewMessage_datagram128 writeQName_example_com)
     (auto simp add: Message_Write_def header_Write_def question_Write_def
        resourceRecord_Write_def query_header_def writeQName_example_com)

text \<open>
  C1 (fails on the code). On the 43 bytes of the example (header, \<open>example.com\<close>, qtype 1,
  qclass 1 and any 14 bytes \<open>t0 \<dots> t13\<close>) \<open>NewMessage\<close> does not return: \<open>newQuestion\<close> skips
  12 bytes from the end of the name, so only 3 bytes are left for \<open>newResourceRecord\<close>,
  whose second \<open>read16\<close> panics. There is no Message to encode. On the same bytes padded
  with zeros to 128 \<open>NewMessage\<close> returns, and \<open>Message.Write\<close> of the result is 39 bytes
  that differ from the input from the 13th byte on.
\<close>

theorem example_datagram_no_roundtrip:
  "NewMessage ([0x00, 0x01, 0x01, 0x00, 0x00, 0x01, 0x00, 0x00, 0x00, 0x00, 0x00, 0x00]
       @ writeQName example_com @ [0x00, 0x01, 0x00, 0x01]
       @ [t0, t1, t2, t3, t4, t5, t6, t7, t8, t9, t10, t11, t12, t13]) =
     Inl SliceBoundsOutOfRange \<and>
   (\<exists>m. NewMessage datagram128 = Inr m \<and>
      Message_Write m =
        [0x00, 0x01, 0x01, 0x00, 0x00, 0x01, 0x00, 0x00, 0x00, 0x00, 0x00, 0x00]
        @ [0xb8, 0xd8, 0x22, 0x00, 0, 0, 0, 0, 0, 0, 0, 0, 0, 0] @ writeQName example_com)"
proof
  show "NewMessage ([0x00, 0x01, 0x01, 0x00, 0x00, 0x01, 0x00, 0x00, 0x00, 0x00, 0x00, 0x00]
       @ writeQName example_com @ [0x00, 0x01, 0x00, 0x01]
       @ [t0, t1, t2, t3, t4, t5, t6, t7, t8, t9, t10, t11, t12, t13]) =
     Inl SliceBoundsOutOfRange"
    by (simp only: writeQName_example_com)
       (simp add: NewMessage_def NewHeader_def and_then_def newQuestion_def readQName_def
          string_of_byte_def newResourceRecord_def)
next
  obtain m where m: "NewMessage datagram128 = Inr m"
    using NewMessage_datagram128 by blast
  with Message_Write_datagram128 [OF m]
  show "\<exists>m. NewMessage datagram128 = Inr m \<and>
      Message_Write m =
        [0x00, 0x01, 0x01, 0x00, 0x00, 0x01, 0x00, 0x00, 0x00, 0x00, 0x00, 0x00]
        @ [0xb8, 0xd8, 0x22, 0x00, 0, 0, 0, 0, 0, 0, 0, 0, 0, 0] @ writeQName example_com"
    by blast
qed

subsection \<open>Failures\<close>

lemma writeQName_loop_None:
  "writeQName_loop s b = None \<longleftrightarrow> (\<exists>l \<in> set s. 63 < length l)"
  by (induction s arbitrary: b) auto

lemma writeQName_nil:
  "writeQName n = [] \<longleftrightarrow> (\<exists>l \<in> set (strings_Split n). 63 < length l)"
  using writeQName_loop_None [of "strings_Split n" "[]"]
  by (auto simp add: writeQName_def split: option.splits)

lemma NewMessage_returns:
  "NewMessage b = Inr m \<Longrightarrow>
     \<exists>h b1 qu b2 r b3. NewHeader b = Inr (h, b1) \<and> newQuestion b1 = Inr (qu, b2) \<and>
        newResourceRecord b2 = Inr (r, b3) \<and>
        m = \<lparr> hdr = h, q = qu, rr = r \<lparr> name := qname qu \<rparr> \<rparr>"
  by (auto simp add: NewMessage_def and_then_def split: sum.splits)

text \<open>
  C9 as stated fails on the code: a buffer of 10 zero bytes makes \<open>NewMessage\<close> panic, a
  first length byte of 64 makes \<open>readQName\<close> call \<open>panic\<close>, and \<open>writeQName\<close> on a label
  of 64 bytes returns \<open>nil\<close>; none of the three is an error value returned to the caller.
\<close>

theorem failures_are_panics_counterexample:
  "NewMessage (replicate 10 0) = Inl SliceBoundsOutOfRange \<and>
   readQName [64, 0x61, 0] = Inl ErrorInvalidQNameLength \<and>
   writeQName (replicate 64 0x61) = []"
  by code_simp

text \<open>
  C9, amended. A failure of decoding is a panic, and it is the panic of the step that
  failed: a panic of \<open>readQName\<close> is the result of \<open>newQuestion\<close>, and a panic of
  \<open>NewHeader\<close>, \<open>newQuestion\<close> or \<open>newResourceRecord\<close> (each on the remainder of the one
  before) is the result of \<open>NewMessage\<close>. \<open>NewMessage\<close> returns a Message only when all
  three returned, and the Message is made of their three results, with the question's name
  as the record's name. \<open>writeQName\<close> returns \<open>nil\<close> exactly when a label is longer than 63
  bytes.
\<close>

theorem failures_are_panics:
  "(readQName b1 = Inl e \<longrightarrow> newQuestion b1 = Inl e) \<and>
   (NewHeader b = Inl e \<longrightarrow> NewMessage b = Inl e) \<and>
   (NewHeader b = Inr (h, b1) \<and> newQuestion b1 = Inl e \<longrightarrow> NewMessage b = Inl e) \<and>
   (NewHeader b = Inr (h, b1) \<and> newQuestion b1 = Inr (qu, b2) \<and>
      newResourceRecord b2 = Inl e \<longrightarrow> NewMessage b = Inl e) \<and>
   (NewMessage b = Inr m \<longrightarrow>
      (\<exists>h' b1' qu' b2' r b3. NewHeader b = Inr (h', b1') \<and> newQuestion b1' = Inr (qu', b2') \<and>
         newResourceRecord b2' = Inr (r, b3) \<and>
         m = \<lparr> hdr = h', q = qu', rr = r \<lparr> name := qname qu' \<rparr> \<rparr>)) \<and>
   (writeQName n = [] \<longleftrightarrow> (\<exists>l \<in> set (strings_Split n). 63 < length l))"
  using NewMessage_returns [of b m] writeQName_nil [of n]
  by (simp add: NewMessage_def newQuestion_def and_then_def)

theorem failures_are_panics_witness:
  "readQName [64, 0x61, 0] = Inl ErrorInvalidQNameLength \<and>
   newQuestion [64, 0x61, 0] = Inl ErrorInvalidQNameLength \<and>
   NewHeader (replicate 10 0) = Inl SliceBoundsOutOfRange \<and>
   NewMessage (replicate 10 0) = Inl SliceBoundsOutOfRange \<and>
   NewHeader (replicate 12 0 @ [64, 0x61, 0]) =
     Inr (query_header \<lparr> id_hdr := 0, qr := 0, rd := 0, questions := 0 \<rparr>, [64, 0x61, 0]) \<and>
   NewMessage (replicate 12 0 @ [64, 0x61, 0]) = Inl ErrorInvalidQNameLength \<and>
   NewHeader datagram = Inr (query_header \<lparr> qr := 0 \<rparr>, drop 12 datagram) \<and>
   newQuestion (drop 12 datagram) =
     Inr (\<lparr> qname = example_com, qtype = 0x3c00, qclass = 0x045d \<rparr>, [0xb8, 0xd8, 0x22]) \<and>
   newResourceRecord [0xb8, 0xd8, 0x22] = Inl SliceBoundsOutOfRange \<and>
   NewMessage datagram = Inl SliceBoundsOutOfRange \<and>
   (\<exists>m h b1 qu b2 r b3. NewMessage datagram128 = Inr m \<and>
      NewHeader datagram128 = Inr (h, b1) \<and> newQuestion b1 = Inr (qu, b2) \<and>
      newResourceRecord b2 = Inr (r, b3) \<and>
      m = \<lparr> hdr = h, q = qu, rr = r \<lparr> name := qname qu \<rparr> \<rparr>) \<and>
   writeQName (replicate 64 0x61) = [] \<and>
   (\<exists>l \<in> set (strings_Split (replicate 64 0x61)). 63 < length l)"
proof -
  have name: "readQName [64, 0x61, 0] = Inl ErrorInvalidQNameLength"
    by code_simp
  have question: "newQuestion [64, 0x61, 0] = Inl ErrorInvalidQNameLength"
    by (rule failures_are_panics [THEN conjunct1, THEN mp]) (rule name)
  have short: "NewHeader (replicate 10 0) = Inl SliceBoundsOutOfRange"
    by code_simp
  have short_msg: "NewMessage (replicate 10 0) = Inl SliceBoundsOutOfRange"
    by (rule failures_are_panics [THEN conjunct2, THEN conjunct1, THEN mp]) (rule short)
  have zeros: "NewHeader (replicate 12 0 @ [64, 0x61, 0]) =
      Inr (query_header \<lparr> id_hdr := 0, qr := 0, rd := 0, questions := 0 \<rparr>, [64, 0x61, 0])"
    by code_simp
  have zeros_msg: "NewMessage (replicate 12 0 @ [64, 0x61, 0]) = Inl ErrorInvalidQNameLength"
    by (rule failures_are_panics [THEN conjunct2, THEN conjunct2, THEN conjunct1, THEN mp])
       (rule conjI [OF zeros question])
  have dg_header: "NewHeader datagram = Inr (query_header \<lparr> qr := 0 \<rparr>, drop 12 datagram)"
    by code_simp
  have dg_question: "newQuestion (drop 12 datagram) =
      Inr (\<lparr> qname = example_com, qtype = 0x3c00, qclass = 0x045d \<rparr>, [0xb8, 0xd8, 0x22])"
    by code_simp
  have dg_record: "newResourceRecord [0xb8, 0xd8, 0x22] = Inl SliceBoundsOutOfRange"
    by code_simp
  have dg_msg: "NewMessage datagram = Inl SliceBoundsOutOfRange"
    by (rule failures_are_panics
          [THEN conjunct2, THEN conjunct2, THEN conjunct2, THEN conjunct1, THEN mp])
       (rule conjI [OF dg_header conjI [OF dg_question dg_record]])
  obtain m where m: "NewMessage datagram128 = Inr m"
    using NewMessage_datagram128 by blast
  have parts: "\<exists>h b1 qu b2 r b3. NewHeader datagram128 = Inr (h, b1) \<and>
      newQuestion b1 = Inr (qu, b2) \<and> newResourceRecord b2 = Inr (r, b3) \<and>
      m = \<lparr> hdr = h, q = qu, rr = r \<lparr> name := qname qu \<rparr> \<rparr>"
    by (rule failures_are_panics
          [THEN conjunct2, THEN conjunct2, THEN conjunct2, THEN conjunct2, THEN conjunct1,
           THEN mp])
       (rule m)
  have nil: "writeQName (replicate 64 0x61) = []"
    by code_simp
  have long: "\<exists>l \<in> set (strings_Split (replicate 64 0x61)). 63 < length l"
    by (rule failures_are_panics
          [THEN conjunct2, THEN conjunct2, THEN conjunct2, THEN conjunct2, THEN conjunct2,
           THEN iffD1])
       (rule nil)
  from m parts have whole: "\<exists>m h b1 qu b2 r b3. NewMessage datagram128 = Inr m \<and>
      NewHeader datagram128 = Inr (h, b1) \<and> newQuestion b1 = Inr (qu, b2) \<and>
      newResourceRecord b2 = Inr (r, b3) \<and>
      m = \<lparr> hdr = h, q = qu, rr = r \<lparr> name := qname qu \<rparr> \<rparr>"
    by blast
  show ?thesis
    by (intro conjI name question short short_msg zeros zeros_msg dg_header dg_question
          dg_record dg_msg whole nil long)
qed

end
